theory Spec2Isabelle
  imports Main "HOL-Library.Sublist"
begin

section \<open>The azure-swa adapter (adapters/azure-swa/vite/index.ts)\<close>

subsection \<open>JavaScript library functions used by the adapter\<close>

text \<open>
  \<^verbatim>\<open>String.prototype.indexOf(search)\<close>: the index of the first occurrence of
  \<open>search\<close>, or \<open>-1\<close>. The empty search string occurs at index 0.
\<close>

fun indexOfFrom :: "string \<Rightarrow> string \<Rightarrow> nat \<Rightarrow> int" where
  "indexOfFrom [] search k = (if search = [] then int k else - 1)"
| "indexOfFrom (c # cs) search k =
     (if prefix search (c # cs) then int k else indexOfFrom cs search (Suc k))"

definition indexOf :: "string \<Rightarrow> string \<Rightarrow> int" where
  "indexOf s search = indexOfFrom s search 0"

text \<open>
  The values handed to \<^verbatim>\<open>JSON.stringify\<close> by the adapter: strings, array and object
  literals, and \<^verbatim>\<open>undefined\<close> (the result of a failed \<^verbatim>\<open>find\<close>). An object is the
  list of its properties in insertion order.
\<close>

datatype jsval =
    Undefined
  | Null
  | Str string
  | Arr "jsval list"
  | Obj "(string \<times> jsval) list"

definition hexDigit :: "nat \<Rightarrow> char" where
  "hexDigit n = ''0123456789abcdef'' ! (n mod 16)"

text \<open>
  \<^verbatim>\<open>QuoteJSONString\<close> of ECMA-262 on the code units of a \<open>string\<close>: the quote, the
  backslash and the control characters are escaped.
\<close>

definition quoteChar :: "char \<Rightarrow> string" where
  "quoteChar c =
     (if c = CHR 0x08 then [CHR 0x5C, CHR ''b'']
      else if c = CHR 0x09 then [CHR 0x5C, CHR ''t'']
      else if c = CHR 0x0A then [CHR 0x5C, CHR ''n'']
      else if c = CHR 0x0C then [CHR 0x5C, CHR ''f'']
      else if c = CHR 0x0D then [CHR 0x5C, CHR ''r'']
      else if c = CHR 0x22 then [CHR 0x5C, CHR 0x22]
      else if c = CHR 0x5C then [CHR 0x5C, CHR 0x5C]
      else if (of_char c :: nat) < 32
        then [CHR 0x5C, CHR ''u'', CHR ''0'', CHR ''0'',
              hexDigit (of_char c div 16), hexDigit (of_char c)]
      else [c])"

definition quoteJSONString :: "string \<Rightarrow> string" where
  "quoteJSONString s = [CHR 0x22] @ concat (map quoteChar s) @ [CHR 0x22]"

fun joinWith :: "string \<Rightarrow> string list \<Rightarrow> string" where
  "joinWith sep [] = []"
| "joinWith sep [x] = x"
| "joinWith sep (x # y # ys) = x @ sep @ joinWith sep (y # ys)"

text \<open>
  \<^verbatim>\<open>SerializeJSONProperty\<close>, \<^verbatim>\<open>SerializeJSONArray\<close> and \<^verbatim>\<open>SerializeJSONObject\<close>:
  \<^verbatim>\<open>undefined\<close> has no serialization, an array element without one is written
  \<^verbatim>\<open>null\<close>, and an object property without one is left out.
\<close>

fun serializeProperty :: "string \<Rightarrow> string \<Rightarrow> jsval \<Rightarrow> string option"
  and serializeElements :: "string \<Rightarrow> string \<Rightarrow> jsval list \<Rightarrow> string list"
  and serializeMembers :: "string \<Rightarrow> string \<Rightarrow> (string \<times> jsval) list \<Rightarrow> string list"
where
  "serializeProperty gap indent Undefined = None"
| "serializeProperty gap indent Null = Some ''null''"
| "serializeProperty gap indent (Str s) = Some (quoteJSONString s)"
| "serializeProperty gap indent (Arr vs) =
     (let stepback = indent;
          indent' = indent @ gap;
          partial = serializeElements gap indent' vs
      in Some (if partial = [] then ''[]''
               else if gap = [] then ''['' @ joinWith '','' partial @ '']''
               else ''['' @ [CHR 0x0A] @ indent'
                      @ joinWith ('','' @ [CHR 0x0A] @ indent') partial
                      @ [CHR 0x0A] @ stepback @ '']''))"
| "serializeProperty gap indent (Obj kvs) =
     (let stepback = indent;
          indent' = indent @ gap;
          partial = serializeMembers gap indent' kvs
      in Some (if partial = [] then ''{}''
               else if gap = [] then ''{'' @ joinWith '','' partial @ ''}''
               else ''{'' @ [CHR 0x0A] @ indent'
                      @ joinWith ('','' @ [CHR 0x0A] @ indent') partial
                      @ [CHR 0x0A] @ stepback @ ''}''))"
| "serializeElements gap indent [] = []"
| "serializeElements gap indent (v # vs) =
     (case serializeProperty gap indent v of None \<Rightarrow> ''null'' | Some t \<Rightarrow> t)
       # serializeElements gap indent vs"
| "serializeMembers gap indent [] = []"
| "serializeMembers gap indent ((k, v) # kvs) =
     (case serializeProperty gap indent v of
        None \<Rightarrow> serializeMembers gap indent kvs
      | Some t \<Rightarrow>
          (quoteJSONString k @ '':'' @ (if gap = [] then [] else '' '') @ t)
            # serializeMembers gap indent kvs)"

text \<open>
  \<^verbatim>\<open>JSON.stringify(value, null, space)\<close> with a numeric \<open>space\<close>: the gap is that many
  spaces, at most ten. The result is \<^verbatim>\<open>undefined\<close> (\<open>None\<close>) for \<^verbatim>\<open>undefined\<close>.
\<close>

definition JSON_stringify :: "jsval \<Rightarrow> nat \<Rightarrow> string option" where
  "JSON_stringify v space = serializeProperty (replicate (min space 10) CHR '' '') [] v"

subsection \<open>The file system\<close>

text \<open>
  \<^verbatim>\<open>node:fs\<close> as far as the adapter uses it: regular files with their contents and the
  set of directories, both known by their path as it is written. Every operation returns
  how its promise settles together with the file system it leaves behind, so that what
  was written before a rejection stays visible. \<open>refused\<close> is the error with which the
  environment refuses an operation on a path for a reason that files and directories
  do not show: a missing permission, a read-only or full volume, a name that is too
  long.
\<close>

datatype fs_error =
    EEXIST
  | ENOENT
  | ENOTDIR
  | EISDIR
  | EACCES
  | ENAMETOOLONG
  | ERR_INVALID_ARG_TYPE
  | ERR_INVALID_ARG_VALUE

datatype outcome = Fulfilled | Rejected fs_error

record fs_state =
  files :: "string \<rightharpoonup> string"
  dirs :: "string set"
  refused :: "string \<Rightarrow> fs_error option"

text \<open>
  The ancestor directories of a path: its proper prefixes that end before a separator.
  \<^verbatim>\<open>dist/server\<close> has the ancestor \<^verbatim>\<open>dist\<close>.
\<close>

fun parentDirsFrom :: "string \<Rightarrow> string \<Rightarrow> string list" where
  "parentDirsFrom seen [] = []"
| "parentDirsFrom seen (c # cs) =
     (if c = CHR ''/'' \<and> seen \<noteq> [] then [seen] else []) @ parentDirsFrom (seen @ [c]) cs"

definition parentDirs :: "string \<Rightarrow> string list" where
  "parentDirs path = parentDirsFrom [] path"

text \<open>
  What every operation checks of its path before it touches the file system: a path
  with a null byte is rejected with \<^verbatim>\<open>ERR_INVALID_ARG_VALUE\<close>, the empty path with
  \<^verbatim>\<open>ENOENT\<close>, and a path the environment refuses with the environment's error.
\<close>

definition pathError :: "fs_state \<Rightarrow> string \<Rightarrow> fs_error option" where
  "pathError s path =
     (if CHR 0x00 \<in> set path then Some ERR_INVALID_ARG_VALUE
      else if path = [] then Some ENOENT
      else refused s path)"

text \<open>
  \<^verbatim>\<open>mkdir(path, { recursive: true })\<close> makes \<open>path\<close> and every missing ancestor a
  directory and succeeds where they exist already. It is rejected with \<^verbatim>\<open>EEXIST\<close>
  where \<open>path\<close> is a regular file and with \<^verbatim>\<open>ENOTDIR\<close> where an ancestor is one.
\<close>

definition mkdir :: "string \<Rightarrow> fs_state \<Rightarrow> outcome \<times> fs_state" where
  "mkdir path s =
     (case pathError s path of
        Some e \<Rightarrow> (Rejected e, s)
      | None \<Rightarrow>
          if files s path \<noteq> None then (Rejected EEXIST, s)
          else if list_ex (\<lambda>a. files s a \<noteq> None) (parentDirs path)
            then (Rejected ENOTDIR, s)
          else (Fulfilled, s\<lparr>dirs := insert path (set (parentDirs path) \<union> dirs s)\<rparr>))"

text \<open>
  The walk along the ancestors of a path, outermost first, that opening a file makes:
  it ends with \<^verbatim>\<open>ENOTDIR\<close> at a regular file and with \<^verbatim>\<open>ENOENT\<close> at a directory
  that does not exist.
\<close>

fun resolveParents :: "fs_state \<Rightarrow> string list \<Rightarrow> fs_error option" where
  "resolveParents s [] = None"
| "resolveParents s (a # ancestors) =
     (if files s a \<noteq> None then Some ENOTDIR
      else if a \<notin> dirs s then Some ENOENT
      else resolveParents s ancestors)"

text \<open>
  \<^verbatim>\<open>writeFile(path, data)\<close> creates or replaces the file. Data that is not a string
  is rejected with \<^verbatim>\<open>ERR_INVALID_ARG_TYPE\<close>. The file is created in its parent
  directory, which \<^verbatim>\<open>writeFile\<close> does not make: a missing ancestor is \<^verbatim>\<open>ENOENT\<close>,
  a regular file among the ancestors \<^verbatim>\<open>ENOTDIR\<close>, and a \<open>path\<close> that is a directory
  \<^verbatim>\<open>EISDIR\<close>.
\<close>

definition writeFile :: "string \<Rightarrow> string option \<Rightarrow> fs_state \<Rightarrow> outcome \<times> fs_state" where
  "writeFile path data s =
     (case data of
        None \<Rightarrow> (Rejected ERR_INVALID_ARG_TYPE, s)
      | Some d \<Rightarrow>
          (case pathError s path of
             Some e \<Rightarrow> (Rejected e, s)
           | None \<Rightarrow>
               (case resolveParents s (parentDirs path) of
                  Some e \<Rightarrow> (Rejected e, s)
                | None \<Rightarrow>
                    if path \<in> dirs s then (Rejected EISDIR, s)
                    else (Fulfilled, s\<lparr>files := (files s)(path \<mapsto> d)\<rparr>))))"

subsection \<open>The generate hook\<close>

text \<open>The object literal serialized into \<^verbatim>\<open>function.json\<close> (lines 29 to 55).\<close>

definition funcJsonValue :: "string option \<Rightarrow> jsval" where
  "funcJsonValue azureSwaModulePath =
     Obj [(''bindings'',
           Arr [Obj [(''authLevel'', Str ''anonymous''),
                     (''type'', Str ''httpTrigger''),
                     (''direction'', Str ''in''),
                     (''name'', Str ''req''),
                     (''methods'',
                      Arr [Str ''get'', Str ''head'', Str ''post'', Str ''put'',
                           Str ''delete'', Str ''connect'', Str ''options'',
                           Str ''trace'', Str ''patch''])],
                Obj [(''type'', Str ''http''),
                     (''direction'', Str ''out''),
                     (''name'', Str ''response'')]]),
          (''scriptFile'',
           (case azureSwaModulePath of None \<Rightarrow> Undefined | Some p \<Rightarrow> Str p))]"

text \<open>
  \<^verbatim>\<open>generate({ outputEntries, serverOutDir })\<close>, lines 17 to 60. \<open>join\<close> is
  \<^verbatim>\<open>path.join\<close> of \<^verbatim>\<open>node:path\<close>, taken as a parameter. \<open>serverOutDir\<close> is optional
  in the caller's type; the source asserts it with \<^verbatim>\<open>!\<close>, and \<^verbatim>\<open>path.join\<close> throws on
  \<^verbatim>\<open>undefined\<close>. \<^verbatim>\<open>Array.prototype.find\<close> is \<^const>\<open>find\<close>.
\<close>

definition generate ::
  "(string \<Rightarrow> string \<Rightarrow> string) \<Rightarrow> string list \<Rightarrow> string option \<Rightarrow> fs_state
     \<Rightarrow> outcome \<times> fs_state" where
  \<open>generate join outputEntries serverOutDir s0 =
     (case serverOutDir of
        None \<Rightarrow> (Rejected ERR_INVALID_ARG_TYPE, s0)
      | Some dir \<Rightarrow>
          (let serverPackageJsonPath = join dir ''package.json'';
               serverPackageJsonCode = ''{"type":"module"}''
           in case mkdir dir s0 of
                (Rejected e, s1) \<Rightarrow> (Rejected e, s1)
              | (Fulfilled, s1) \<Rightarrow>
                 (case writeFile serverPackageJsonPath (Some serverPackageJsonCode) s1 of
                    (Rejected e, s2) \<Rightarrow> (Rejected e, s2)
                  | (Fulfilled, s2) \<Rightarrow>
                     (let azureSwaModulePath =
                            find (\<lambda>entryName. indexOf entryName ''entry.azure-swa'' = 0)
                              outputEntries;
                          funcJsonPath = join dir ''function.json'';
                          funcJson = JSON_stringify (funcJsonValue azureSwaModulePath) 2
                      in writeFile funcJsonPath funcJson s2))))\<close>

text \<open>
  The text \<^verbatim>\<open>JSON.stringify(..., null, 2)\<close> is expected to produce for the object literal,
  line by line.
\<close>

definition expectedFuncJson :: "string option \<Rightarrow> string" where
  \<open>expectedFuncJson azureSwaModulePath =
     joinWith [CHR 0x0A]
       ([''{'',
         ''  "bindings": ['',
         ''    {'',
         ''      "authLevel": "anonymous",'',
         ''      "type": "httpTrigger",'',
         ''      "direction": "in",'',
         ''      "name": "req",'',
         ''      "methods": ['',
         ''        "get",'',
         ''        "head",'',
         ''        "post",'',
         ''        "put",'',
         ''        "delete",'',
         ''        "connect",'',
         ''        "options",'',
         ''        "trace",'',
         ''        "patch"'',
         ''      ]'',
         ''    },'',
         ''    {'',
         ''      "type": "http",'',
         ''      "direction": "out",'',
         ''      "name": "response"'',
         ''    }'']
        @ (case azureSwaModulePath of
             None \<Rightarrow> [''  ]'', ''}'']
           | Some p \<Rightarrow> [''  ],'', ''  "scriptFile": '' @ quoteJSONString p, ''}'']))\<close>

subsection \<open>The adapter and its deprecated alias\<close>

text \<open>
  \<^verbatim>\<open>azureSwaAdapter(opts = {})\<close>, lines 9 to 62, hands an object literal to
  \<^verbatim>\<open>viteAdapter\<close> of \<^verbatim>\<open>../../shared/vite\<close>, which is taken as a parameter, as are
  \<^verbatim>\<open>path.join\<close> and the environment variable \<^verbatim>\<open>URL\<close> that the literal reads.
  An absent argument is the empty options object; an absent or empty \<^verbatim>\<open>URL\<close> is falsy
  and gives the default origin.
\<close>

record ('sg, 'ssg) AzureSwaAdapterOptions =
  staticGenerate :: "'sg option"
  ssg :: "'ssg option"

record ('sg, 'ssg) ViteAdapterConfig =
  name :: string
  origin :: string
  cfg_staticGenerate :: "'sg option"
  cfg_ssg :: "'ssg option"
  cleanStaticGenerated :: bool
  cfg_generate :: "string list \<Rightarrow> string option \<Rightarrow> fs_state \<Rightarrow> outcome \<times> fs_state"

definition azureSwaAdapter ::
  "(('sg, 'ssg) ViteAdapterConfig \<Rightarrow> 'plugin) \<Rightarrow> (string \<Rightarrow> string \<Rightarrow> string) \<Rightarrow> string option
     \<Rightarrow> ('sg, 'ssg) AzureSwaAdapterOptions option \<Rightarrow> 'plugin" where
  "azureSwaAdapter viteAdapter join env_URL opts_arg =
     (let opts = (case opts_arg of
                    None \<Rightarrow> \<lparr>staticGenerate = None, ssg = None\<rparr>
                  | Some given \<Rightarrow> given)
      in viteAdapter
           \<lparr>name = ''azure-swa'',
            origin = (case env_URL of
                        None \<Rightarrow> ''https://yoursitename.region.2.azurestaticapps.net''
                      | Some url \<Rightarrow>
                          if url = [] then ''https://yoursitename.region.2.azurestaticapps.net''
                          else url),
            cfg_staticGenerate = staticGenerate opts,
            cfg_ssg = ssg opts,
            cleanStaticGenerated = True,
            cfg_generate = generate join\<rparr>)"

definition azureSwaAdaptor ::
  "(('sg, 'ssg) ViteAdapterConfig \<Rightarrow> 'plugin) \<Rightarrow> (string \<Rightarrow> string \<Rightarrow> string) \<Rightarrow> string option
     \<Rightarrow> ('sg, 'ssg) AzureSwaAdapterOptions option \<Rightarrow> 'plugin" where
  "azureSwaAdaptor = azureSwaAdapter"

section \<open>The routing core\<close>

text \<open>
  The segment tree builder, the manifest compiler, the path matcher, the handler
  pipeline and the layout composition engine are not among the source files at hand.
  They are modelled from sections 3 and 4 of the specification.
\<close>

subsection \<open>Data model\<close>

text \<open>
  Modelled from the spec: \<open>LayoutNode\<close> of section 3, which no source file at hand
  declares. A layout is known by its name (empty for the default) and its body; the
  chain of its ancestors is what the compiler records in \<open>layoutChain\<close>.
\<close>

record LayoutNode =
  layoutName :: string
  bodyRef :: string

text \<open>Modelled from the spec: the kinds of a \<open>SegmentNode\<close> (section 3).\<close>

datatype kind = Static | DynamicParam | RestParam | PathlessGroup | Index

text \<open>
  Modelled from the spec: \<open>SegmentNode\<close> of section 3, with its attributes in this
  order: kind, raw name, URL token, children, handler reference (on index nodes),
  layouts declared by the directory (by name, the default under the empty name) and the
  named layout a leaf requests with its at-marker suffix.
\<close>

datatype SegmentNode =
  SegmentNode kind string string "SegmentNode list" "string option"
    "(string \<times> LayoutNode) list" "string option"

text \<open>Modelled from the spec: the matchers a pattern is made of (section 3).\<close>

datatype matcher = Literal string | Param | Rest

text \<open>Modelled from the spec: \<open>RouteEntry\<close>, the element of a manifest (section 3).\<close>

record RouteEntry =
  pattern :: "matcher list"
  paramNames :: "string list"
  handlerRef :: string
  layoutChain :: "LayoutNode list"

text \<open>
  Modelled from the spec: the payload a handler returns, which may be the explicit
  absent value (section 3).
\<close>

datatype 'd payload = Present 'd | Absent

text \<open>Modelled from the spec: \<open>HandlerResult\<close> of section 3.\<close>

record 'd HandlerResult =
  statusCode :: nat
  redirectTarget :: "string option"
  headers :: "(string \<times> string) list"
  data :: "'d payload"
  errorKind :: "string option"

text \<open>Modelled from the spec: the build-time errors of section 7.\<close>

datatype compile_error =
    DuplicateRouteError
  | AmbiguousRestParamError
  | UnresolvedLayoutError
  | ConflictingPatternError

text \<open>Modelled from the spec: the matcher's recoverable error of section 7.\<close>

datatype match_error = RouteNotFoundError

subsection \<open>Manifest compiler\<close>

text \<open>
  Modelled from the spec: the default layout a directory level contributes to a chain,
  if it declares one (section 4.2). The compiler itself is not among the sources.
\<close>

definition defaultLayout :: "(string \<times> LayoutNode) list \<Rightarrow> LayoutNode list" where
  "defaultLayout refs = (case map_of refs [] of None \<Rightarrow> [] | Some l \<Rightarrow> [l])"

text \<open>
  Modelled from the spec: the chain of a route that requests the named layout \<open>n\<close>
  (sections 4.1 and 4.2), over the directory levels from the leaf's own directory up to
  the root, innermost layout first. The name is looked up from the leaf's directory
  upwards, as section 4.1 resolves it anywhere in the ancestor chain; at the level that
  declares it the named layout stands in place of that level's default, and every other
  level contributes its default. \<open>None\<close> when no level declares the name.
\<close>

fun namedChain :: "string \<Rightarrow> (string \<times> LayoutNode) list list \<Rightarrow> LayoutNode list option" where
  "namedChain n [] = None"
| "namedChain n (refs # outer) =
     (case map_of refs n of
        Some l \<Rightarrow> Some (l # concat (map defaultLayout outer))
      | None \<Rightarrow> map_option (\<lambda>chain. defaultLayout refs @ chain) (namedChain n outer))"

text \<open>
  Modelled from the spec: the layout chain resolution of section 4.2. \<open>levels\<close> are the
  layouts declared by the directories from the root down to the leaf's own directory.
  Without a requested name every level contributes its default layout; the chain is
  outermost first. A requested name that no level declares is an
  \<open>UnresolvedLayoutError\<close>.
\<close>

definition resolveLayoutChain ::
  "(string \<times> LayoutNode) list list \<Rightarrow> string option \<Rightarrow> compile_error + LayoutNode list" where
  "resolveLayoutChain levels requested =
     (case requested of
        None \<Rightarrow> Inr (concat (map defaultLayout levels))
      | Some n \<Rightarrow>
          (case namedChain n (rev levels) of
             None \<Rightarrow> Inl UnresolvedLayoutError
           | Some chain \<Rightarrow> Inr (rev chain)))"

text \<open>
  Modelled from the spec: the matcher a node contributes to the pattern (section 4.1).
  A pathless group and an index node contribute nothing.
\<close>

definition nodeMatchers :: "kind \<Rightarrow> string \<Rightarrow> matcher list" where
  "nodeMatchers k urlToken =
     (case k of
        Static \<Rightarrow> [Literal urlToken]
      | DynamicParam \<Rightarrow> [Param]
      | RestParam \<Rightarrow> [Rest]
      | PathlessGroup \<Rightarrow> []
      | Index \<Rightarrow> [])"

text \<open>
  Modelled from the spec: the parameter name a node contributes (section 4.1). A dynamic
  parameter is written \<^verbatim>\<open>[name]\<close>, a rest parameter \<^verbatim>\<open>[...name]\<close>.
\<close>

definition nodeParamNames :: "kind \<Rightarrow> string \<Rightarrow> string list" where
  "nodeParamNames k rawName =
     (case k of
        DynamicParam \<Rightarrow> [butlast (drop 1 rawName)]
      | RestParam \<Rightarrow> [butlast (drop 4 rawName)]
      | _ \<Rightarrow> [])"

text \<open>
  Modelled from the spec: the depth-first walk of section 4.2. It accumulates the
  pattern, the parameter names and the layout levels of the ancestor directories, and
  emits one route entry per node that carries a handler, in declaration order. An index
  node is a leaf file: it adds no directory level of its own. Errors of the chain
  resolution end the compilation.
\<close>

fun collectRoutes ::
    "matcher list \<Rightarrow> string list \<Rightarrow> (string \<times> LayoutNode) list list \<Rightarrow> SegmentNode
       \<Rightarrow> compile_error + RouteEntry list"
  and collectChildren ::
    "matcher list \<Rightarrow> string list \<Rightarrow> (string \<times> LayoutNode) list list \<Rightarrow> SegmentNode list
       \<Rightarrow> compile_error + RouteEntry list"
where
  "collectRoutes pat names levels
       (SegmentNode k rawName urlToken children handler layoutRefs requested) =
     (let pat' = pat @ nodeMatchers k urlToken;
          names' = names @ nodeParamNames k rawName;
          levels' = (if k = Index then levels else levels @ [layoutRefs])
      in case (case handler of
                 None \<Rightarrow> Inr []
               | Some h \<Rightarrow>
                   (case resolveLayoutChain levels' requested of
                      Inl err \<Rightarrow> Inl err
                    | Inr chain \<Rightarrow>
                        Inr [\<lparr>pattern = pat', paramNames = names', handlerRef = h,
                              layoutChain = chain\<rparr>])) of
           Inl err \<Rightarrow> Inl err
         | Inr own \<Rightarrow>
             (case collectChildren pat' names' levels' children of
                Inl err \<Rightarrow> Inl err
              | Inr nested \<Rightarrow> Inr (own @ nested)))"
| "collectChildren pat names levels [] = Inr []"
| "collectChildren pat names levels (c # cs) =
     (case collectRoutes pat names levels c of
        Inl err \<Rightarrow> Inl err
      | Inr first \<Rightarrow>
          (case collectChildren pat names levels cs of
             Inl err \<Rightarrow> Inl err
           | Inr others \<Rightarrow> Inr (first @ others)))"

text \<open>Modelled from the spec: a literal matcher, of which a static-only pattern is made.\<close>

fun isLiteral :: "matcher \<Rightarrow> bool" where
  "isLiteral (Literal t) = True"
| "isLiteral Param = False"
| "isLiteral Rest = False"

text \<open>
  Modelled from the spec: the specificity rank of section 4.2. Static-only patterns come
  first, then patterns with dynamic parameters, then patterns ending in a rest parameter.
\<close>

definition rank :: "matcher list \<Rightarrow> nat" where
  "rank p =
     (if list_all isLiteral p then 0
      else if p \<noteq> [] \<and> last p = Rest then 2
      else 1)"

text \<open>
  Modelled from the spec: the ordering of the flattened entries (section 4.2). The sort
  is stable, so ties keep declaration order. Two entries with the same pattern are a
  \<open>ConflictingPatternError\<close>.
\<close>

definition rankEntries :: "RouteEntry list \<Rightarrow> compile_error + RouteEntry list" where
  "rankEntries entries =
     (if distinct (map pattern entries) then Inr (sort_key (\<lambda>e. rank (pattern e)) entries)
      else Inl ConflictingPatternError)"

text \<open>
  Modelled from the spec: the manifest compiler of section 4.2, from the root of the
  segment tree to the ordered list of route entries.
\<close>

definition compileManifest :: "SegmentNode \<Rightarrow> compile_error + RouteEntry list" where
  "compileManifest root =
     (case collectRoutes [] [] [] root of
        Inl err \<Rightarrow> Inl err
      | Inr entries \<Rightarrow> rankEntries entries)"

subsection \<open>Path matcher\<close>

text \<open>
  Modelled from the spec: what a matcher binds (section 4.3), one segment for a
  parameter and a sequence of segments for a rest parameter.
\<close>

datatype capture = One string | Many "string list"

text \<open>
  Modelled from the spec: the segment-by-segment match of section 4.3 on a normalized
  request path, a sequence of segments. A literal needs the same token, a parameter
  takes one segment, a rest parameter takes all remaining segments, also none. A pattern
  matches when the path and the pattern are both used up.
\<close>

fun matchPattern :: "matcher list \<Rightarrow> string list \<Rightarrow> capture list option" where
  "matchPattern [] [] = Some []"
| "matchPattern [] (s # segs) = None"
| "matchPattern (Literal t # ms) [] = None"
| "matchPattern (Literal t # ms) (s # segs) =
     (if s = t then matchPattern ms segs else None)"
| "matchPattern (Param # ms) [] = None"
| "matchPattern (Param # ms) (s # segs) =
     map_option (\<lambda>caps. One s # caps) (matchPattern ms segs)"
| "matchPattern (Rest # ms) segs =
     map_option (\<lambda>caps. Many segs # caps) (matchPattern ms [])"

text \<open>
  Modelled from the spec: the linear scan of section 4.3 over the rank-ordered entries.
  It returns the first entry that matches, with the captures bound to the entry's
  parameter names, and \<open>RouteNotFoundError\<close> when no entry matches.
\<close>

fun matchRoute ::
  "RouteEntry list \<Rightarrow> string list \<Rightarrow> match_error + RouteEntry \<times> (string \<times> capture) list" where
  "matchRoute [] path = Inl RouteNotFoundError"
| "matchRoute (e # es) path =
     (case matchPattern (pattern e) path of
        Some caps \<Rightarrow> Inr (e, zip (paramNames e) caps)
      | None \<Rightarrow> matchRoute es path)"

text \<open>The path a static-only pattern stands for.\<close>

fun literalPath :: "matcher list \<Rightarrow> string list" where
  "literalPath [] = []"
| "literalPath (Literal t # ms) = t # literalPath ms"
| "literalPath (m # ms) = literalPath ms"

subsection \<open>Handler pipeline and layout composition\<close>

text \<open>
  Modelled from the spec: the mutable response descriptor a handler is given
  (section 4.4): status code, headers and redirect target, each unset at first.
\<close>

record response =
  status :: "nat option"
  responseHeaders :: "(string \<times> string) list"
  redirect :: "string option"

text \<open>
  Modelled from the spec: a handler (section 4.4). It gets the path parameters and the
  response descriptor, which it may change, and either returns a payload or raises a
  fault (\<open>Inl\<close>).
\<close>

type_synonym 'd handler =
  "(string \<times> capture) list \<Rightarrow> response \<Rightarrow> response \<times> (string + 'd payload)"

text \<open>
  Modelled from the spec: the invocation of a handler by the pipeline of section 4.4.
  The status code of the result is the one the handler set, and otherwise 200, or 500
  after a fault, which is kept as \<open>errorKind\<close>.
\<close>

definition invokeHandler :: "'d handler \<Rightarrow> (string \<times> capture) list \<Rightarrow> 'd HandlerResult" where
  "invokeHandler h params =
     (case h params \<lparr>status = None, responseHeaders = [], redirect = None\<rparr> of
        (resp, Inr payload) \<Rightarrow>
          \<lparr>statusCode = (case status resp of None \<Rightarrow> 200 | Some c \<Rightarrow> c),
           redirectTarget = redirect resp,
           headers = responseHeaders resp,
           data = payload,
           errorKind = None\<rparr>
      | (resp, Inl fault) \<Rightarrow>
          \<lparr>statusCode = (case status resp of None \<Rightarrow> 500 | Some c \<Rightarrow> c),
           redirectTarget = redirect resp,
           headers = responseHeaders resp,
           data = Absent,
           errorKind = Some fault\<rparr>)"

text \<open>
  Modelled from the spec: the nested render contexts of section 4.5. A layout context
  wraps one child context; the leaf context alone holds the result.
\<close>

datatype 'd render_context =
    LeafContext string "'d HandlerResult"
  | LayoutContext LayoutNode "'d render_context"

text \<open>
  Modelled from the spec: the layout composition engine of section 4.5, from the
  outermost layout of the chain to the leaf view.
\<close>

fun compose :: "LayoutNode list \<Rightarrow> string \<Rightarrow> 'd HandlerResult \<Rightarrow> 'd render_context" where
  "compose [] leaf result = LeafContext leaf result"
| "compose (l # ls) leaf result = LayoutContext l (compose ls leaf result)"

text \<open>
  Modelled from the spec: what the pipeline answers (sections 4.4 and 7), a redirect
  with its target, status code and headers, or a rendered composition.
\<close>

datatype 'd outcome_response =
    RedirectResponse string nat "(string \<times> string) list"
  | Rendered "'d render_context"

text \<open>
  Modelled from the spec: a result with a redirect target is finalized as a redirect and
  composition is skipped; every other result is composed and rendered.
\<close>

definition finalize :: "RouteEntry \<Rightarrow> 'd HandlerResult \<Rightarrow> 'd outcome_response" where
  "finalize entry result =
     (case redirectTarget result of
        Some target \<Rightarrow> RedirectResponse target (statusCode result) (headers result)
      | None \<Rightarrow> Rendered (compose (layoutChain entry) (handlerRef entry) result))"

text \<open>
  Modelled from the spec: the pipeline of section 4.4 for a matched entry and its
  handler.
\<close>

definition handleRequest ::
  "RouteEntry \<Rightarrow> 'd handler \<Rightarrow> (string \<times> capture) list \<Rightarrow> 'd outcome_response" where
  "handleRequest entry h params = finalize entry (invokeHandler h params)"

text \<open>The layouts of a composition, outermost first.\<close>

fun contextLayouts :: "'d render_context \<Rightarrow> LayoutNode list" where
  "contextLayouts (LeafContext leaf result) = []"
| "contextLayouts (LayoutContext l inner) = l # contextLayouts inner"

text \<open>The leaf of a composition: the view and the result it is given.\<close>

fun contextLeaf :: "'d render_context \<Rightarrow> string \<times> 'd HandlerResult" where
  "contextLeaf (LeafContext leaf result) = (leaf, result)"
| "contextLeaf (LayoutContext l inner) = contextLeaf inner"

text \<open>The composition a response carries, if any.\<close>

fun renderedContext :: "'d outcome_response \<Rightarrow> 'd render_context option" where
  "renderedContext (RedirectResponse target code hs) = None"
| "renderedContext (Rendered c) = Some c"

subsection \<open>Route trees of the documented scenarios\<close>

text \<open>
  The tree of the named-layout example (\<^verbatim>\<open>routes/layout.tsx\<close>,
  \<^verbatim>\<open>routes/layout-narrow.tsx\<close>, \<^verbatim>\<open>routes/index.tsx\<close> and
  \<^verbatim>\<open>routes/contact/index@narrow.tsx\<close>). The root directory contributes no URL token.
\<close>

definition rootLayout :: LayoutNode where
  "rootLayout = \<lparr>layoutName = [], bodyRef = ''src/routes/layout.tsx''\<rparr>"



text \<open>
  The tree of the product example (\<^verbatim>\<open>routes/product/[skuId]/index.tsx\<close> under a root
  layout), with a static sibling \<^verbatim>\<open>new\<close> and a rest sibling \<^verbatim>\<open>[...rest]\<close> declared
  after the dynamic parameter.
\<close>

definition productRoutes :: SegmentNode where
  "productRoutes =
     SegmentNode PathlessGroup ''routes'' []
       [SegmentNode Static ''product'' ''product''
          [SegmentNode DynamicParam ''[skuId]'' []
             [SegmentNode Index ''index'' [] []
                (Some ''src/routes/product/[skuId]/index.tsx'') [] None]
             None [] None,
           SegmentNode Static ''new'' ''new''
             [SegmentNode Index ''index'' [] []
                (Some ''src/routes/product/new/index.tsx'') [] None]
             None [] None,
           SegmentNode RestParam ''[...rest]'' []
             [SegmentNode Index ''index'' [] []
                (Some ''src/routes/product/[...rest]/index.tsx'') [] None]
             None [] None]
          None [] None]
       None [([], rootLayout)] None"

text \<open>
  The handler of the product example for an unknown \<^verbatim>\<open>skuId\<close>: it sets the status to
  404 and returns the absent value. The second handler redirects instead.
\<close>

definition notFoundHandler :: "string handler" where
  "notFoundHandler params resp = (resp\<lparr>status := Some 404\<rparr>, Inr Absent)"

definition redirectHandler :: "string handler" where
  "redirectHandler params resp =
     (resp\<lparr>redirect := Some ''/product/new''\<rparr>, Inr (Present ''moved''))"

section \<open>Properties of the azure-swa adapter\<close>

subsection \<open>Library facts\<close>

lemma indexOfFrom_ge: "indexOfFrom s p k = - 1 \<or> int k \<le> indexOfFrom s p k"
  by (induction s arbitrary: k) (auto, force)

lemma indexOfFrom_start: "indexOfFrom s p k = int k \<longleftrightarrow> prefix p s"
proof (cases s)
  case Nil then show ?thesis by auto
next
  case (Cons c cs)
  have "indexOfFrom cs p (Suc k) \<noteq> int k"
    using indexOfFrom_ge [of cs p "Suc k"] by auto
  with Cons show ?thesis by auto
qed

lemma indexOf_zero_iff: "indexOf s p = 0 \<longleftrightarrow> prefix p s"
  using indexOfFrom_start [of s p 0] by (simp add: indexOf_def)

text \<open>The serializer produces the expected text for the object literal of the hook.\<close>

lemma stringify_funcJson: "JSON_stringify (funcJsonValue m) 2 = Some (expectedFuncJson m)"
  by (cases m) (simp_all add: JSON_stringify_def funcJsonValue_def expectedFuncJson_def Let_def numeral_2_eq_2 quoteJSONString_def quoteChar_def)

subsection \<open>The steps of the hook\<close>

text \<open>
  The hook is the sequence of the three file system operations, ended by the first
  rejection; the data of the last write is the expected text for the entry found.
\<close>

lemma generate_steps:
  \<open>generate join oe (Some dir) s0 =
     (case mkdir dir s0 of
        (Rejected e, s1) \<Rightarrow> (Rejected e, s1)
      | (Fulfilled, s1) \<Rightarrow>
          (case writeFile (join dir ''package.json'') (Some ''{"type":"module"}'') s1 of
             (Rejected e, s2) \<Rightarrow> (Rejected e, s2)
           | (Fulfilled, s2) \<Rightarrow>
               writeFile (join dir ''function.json'')
                 (Some (expectedFuncJson
                    (find (\<lambda>entryName. prefix ''entry.azure-swa'' entryName) oe))) s2))\<close>
  by (simp add: generate_def stringify_funcJson Let_def indexOf_zero_iff
      split: prod.splits outcome.splits)

text \<open>What each operation changes, and when it is fulfilled.\<close>

lemma pathError_None:
  "pathError s path = None \<longleftrightarrow> path \<noteq> [] \<and> CHR 0x00 \<notin> set path \<and> refused s path = None"
  by (simp add: pathError_def)

lemma mkdir_effect:
  assumes "mkdir path s = (r, s')"
  shows "files s' = files s" and "refused s' = refused s"
    and "dirs s \<subseteq> dirs s'" and "dirs s' \<subseteq> insert path (set (parentDirs path) \<union> dirs s)"
  using assms by (auto simp: mkdir_def split: option.splits if_splits)

lemma mkdir_Fulfilled:
  "mkdir path s = (Fulfilled, s') \<longleftrightarrow>
     pathError s path = None \<and> files s path = None
       \<and> (\<forall>a\<in>set (parentDirs path). files s a = None)
       \<and> s' = s\<lparr>dirs := insert path (set (parentDirs path) \<union> dirs s)\<rparr>"
  by (auto simp: mkdir_def list_ex_iff split: option.splits)

lemma resolveParents_None:
  "resolveParents s ancestors = None \<longleftrightarrow> (\<forall>a\<in>set ancestors. files s a = None \<and> a \<in> dirs s)"
  by (induction ancestors) auto

lemma writeFile_effect:
  assumes "writeFile path content s = (r, s')"
  shows "dirs s' = dirs s" and "refused s' = refused s"
    and "q \<noteq> path \<Longrightarrow> files s' q = files s q"
  using assms by (auto simp: writeFile_def split: option.splits if_splits)

lemma writeFile_Fulfilled:
  "writeFile path (Some d) s = (Fulfilled, s') \<longleftrightarrow>
     pathError s path = None \<and> resolveParents s (parentDirs path) = None \<and> path \<notin> dirs s
       \<and> s' = s\<lparr>files := (files s)(path \<mapsto> d)\<rparr>"
  by (auto simp: writeFile_def split: option.splits)

text \<open>A fulfilled hook has written \<^verbatim>\<open>function.json\<close> last, for the entry found.\<close>

lemma generate_Fulfilled:
  assumes "generate join oe (Some dir) s0 = (Fulfilled, s')"
  shows "files s' (join dir ''function.json'')
           = Some (expectedFuncJson (find (\<lambda>entryName. prefix ''entry.azure-swa'' entryName) oe))"
proof -
  from assms obtain s2 where
    "writeFile (join dir ''function.json'')
       (Some (expectedFuncJson (find (\<lambda>entryName. prefix ''entry.azure-swa'' entryName) oe))) s2
     = (Fulfilled, s')"
    unfolding generate_steps by (auto split: prod.splits outcome.splits)
  then show ?thesis by (simp add: writeFile_Fulfilled)
qed


text \<open>\<^const>\<open>find\<close> returns the first element that passes the test.\<close>

lemma find_first_index:
  assumes "i < length xs" "P (xs ! i)" "\<forall>j<i. \<not> P (xs ! j)"
  shows "find P xs = Some (xs ! i)"
  using assms by (auto simp: find_Some_iff)

lemma find_prefix_member:
  assumes "\<exists>e\<in>set xs. P e"
  shows "\<exists>e\<in>set xs. P e \<and> find P xs = Some e"
  using assms by (cases "find P xs") (auto simp: find_None_iff find_Some_iff)

subsection \<open>The entry referenced by function.json\<close>

text \<open>
  Claim C1. When \<open>outputEntries\<close> holds at least one name that starts with
  \<^verbatim>\<open>entry.azure-swa\<close> and the hook completes, the \<^verbatim>\<open>function.json\<close> it has written is
  the descriptor whose \<^verbatim>\<open>scriptFile\<close> is an element of \<open>outputEntries\<close> that starts
  with \<^verbatim>\<open>entry.azure-swa\<close>.
\<close>

theorem generate_scriptFile_matched:
  assumes "\<exists>e\<in>set outputEntries. prefix ''entry.azure-swa'' e"
    and "generate join outputEntries (Some dir) s0 = (Fulfilled, s')"
  shows "\<exists>e\<in>set outputEntries. prefix ''entry.azure-swa'' e \<and>
           files s' (join dir ''function.json'') = Some (expectedFuncJson (Some e))"
proof -
  from find_prefix_member [OF assms(1)] obtain e where
    e: "e \<in> set outputEntries" "prefix ''entry.azure-swa'' e"
       "find (\<lambda>entryName. prefix ''entry.azure-swa'' entryName) outputEntries = Some e"
    by blast
  from generate_Fulfilled [OF assms(2)]
  have "files s' (join dir ''function.json'') = Some (expectedFuncJson (Some e))"
    unfolding e(3) .
  with e show ?thesis by blast
qed

text \<open>
  The hook on the output directory \<^verbatim>\<open>dist/server\<close>, in an environment that refuses
  nothing, with a join that puts one separator between directory and name.
\<close>

lemma generate_example:
  \<open>generate (\<lambda>a b. a @ ''/'' @ b) oe (Some ''dist/server'')
      \<lparr>files = fs, dirs = ds, refused = (\<lambda>p. None)\<rparr>
    = (if fs ''dist/server'' \<noteq> None then (Rejected EEXIST, \<lparr>files = fs, dirs = ds, refused = (\<lambda>p. None)\<rparr>)
       else if fs ''dist'' \<noteq> None then (Rejected ENOTDIR, \<lparr>files = fs, dirs = ds, refused = (\<lambda>p. None)\<rparr>)
       else if ''dist/server/package.json'' \<in> ds
         then (Rejected EISDIR,
               \<lparr>files = fs, dirs = insert ''dist/server'' (insert ''dist'' ds), refused = (\<lambda>p. None)\<rparr>)
       else if ''dist/server/function.json'' \<in> ds
         then (Rejected EISDIR,
               \<lparr>files = fs(''dist/server/package.json'' \<mapsto> ''{"type":"module"}''),
                 dirs = insert ''dist/server'' (insert ''dist'' ds), refused = (\<lambda>p. None)\<rparr>)
       else (Fulfilled,
             \<lparr>files = fs(''dist/server/package.json'' \<mapsto> ''{"type":"module"}'',
                  ''dist/server/function.json'' \<mapsto>
                    expectedFuncJson (find (\<lambda>entryName. prefix ''entry.azure-swa'' entryName) oe)),
               dirs = insert ''dist/server'' (insert ''dist'' ds), refused = (\<lambda>p. None)\<rparr>))\<close>
  by (simp add: generate_steps mkdir_def writeFile_def pathError_def parentDirs_def)


theorem generate_scriptFile_matched_witness:
  \<open>(\<exists>e\<in>set [''q-abc.js'', ''entry.azure-swa.mjs'']. prefix ''entry.azure-swa'' e) \<and>
   (\<exists>e\<in>set [''q-abc.js'', ''entry.azure-swa.mjs'']. prefix ''entry.azure-swa'' e \<and>
      files (snd (generate (\<lambda>a b. a @ ''/'' @ b) [''q-abc.js'', ''entry.azure-swa.mjs'']
                    (Some ''dist/server'')
                    \<lparr>files = Map.empty, dirs = {}, refused = (\<lambda>p. None)\<rparr>))
        ''dist/server/function.json'' = Some (expectedFuncJson (Some e)))\<close>
proof -
  have h1: "\<exists>e\<in>set [''q-abc.js'', ''entry.azure-swa.mjs'']. prefix ''entry.azure-swa'' e"
    by simp
  have h2: "generate (\<lambda>a b. a @ ''/'' @ b) [''q-abc.js'', ''entry.azure-swa.mjs'']
              (Some ''dist/server'') \<lparr>files = Map.empty, dirs = {}, refused = (\<lambda>p. None)\<rparr>
            = (Fulfilled, snd (generate (\<lambda>a b. a @ ''/'' @ b) [''q-abc.js'', ''entry.azure-swa.mjs'']
                 (Some ''dist/server'') \<lparr>files = Map.empty, dirs = {}, refused = (\<lambda>p. None)\<rparr>))"
    unfolding generate_example by simp
  from generate_scriptFile_matched [OF h1 h2] h1 show ?thesis by simp
qed

subsection \<open>What the hook writes\<close>

text \<open>
  Claim C7. The hook is a packaging step. However it settles, every file other than
  \<^verbatim>\<open>package.json\<close> and \<^verbatim>\<open>function.json\<close> under \<open>serverOutDir\<close> is as before, no
  directory disappears and the only directories that may appear are \<open>serverOutDir\<close>
  and its ancestors. The hook's inputs are \<open>outputEntries\<close>, which it only reads through
  \<^verbatim>\<open>find\<close>, \<open>serverOutDir\<close> and the file system: it has no access to a route manifest.
\<close>

theorem generate_frame:
  assumes "generate join outputEntries (Some dir) s0 = (r, s')"
  shows "(\<forall>p. p \<noteq> join dir ''package.json'' \<and> p \<noteq> join dir ''function.json''
            \<longrightarrow> files s' p = files s0 p)
         \<and> dirs s0 \<subseteq> dirs s' \<and> dirs s' \<subseteq> insert dir (set (parentDirs dir) \<union> dirs s0)"
proof -
  obtain r1 s1 where m: "mkdir dir s0 = (r1, s1)"
    by (cases "mkdir dir s0")
  obtain r2 s2 where w1:
    \<open>writeFile (join dir ''package.json'') (Some ''{"type":"module"}'') s1 = (r2, s2)\<close>
    by (cases \<open>writeFile (join dir ''package.json'') (Some ''{"type":"module"}'') s1\<close>)
  obtain r3 s3 where w2:
    "writeFile (join dir ''function.json'')
       (Some (expectedFuncJson
          (find (\<lambda>entryName. prefix ''entry.azure-swa'' entryName) outputEntries))) s2 = (r3, s3)"
    by (cases "writeFile (join dir ''function.json'')
       (Some (expectedFuncJson
          (find (\<lambda>entryName. prefix ''entry.azure-swa'' entryName) outputEntries))) s2")
  from assms have reached: "s' = s1 \<or> s' = s2 \<or> s' = s3"
    by (auto simp: generate_steps m w1 w2 split: outcome.splits)
  note e1 = mkdir_effect [OF m] and e2 = writeFile_effect [OF w1]
    and e3 = writeFile_effect [OF w2]
  have d2: "dirs s2 = dirs s1" and d3: "dirs s3 = dirs s1"
    using e2(1) e3(1) by simp_all
  have f1: "files s1 p = files s0 p" for p
    using e1(1) by simp
  have f2: "files s2 p = files s0 p" if "p \<noteq> join dir ''package.json''" for p
    using e2(3) [OF that] f1 by simp
  have f3: "files s3 p = files s0 p"
    if "p \<noteq> join dir ''package.json''" "p \<noteq> join dir ''function.json''" for p
    using e3(3) [OF that(2)] f2 [OF that(1)] by simp
  from reached f1 f2 f3 have
    "\<forall>p. p \<noteq> join dir ''package.json'' \<and> p \<noteq> join dir ''function.json''
            \<longrightarrow> files s' p = files s0 p"
    by blast
  moreover from reached e1(3) d2 d3 have "dirs s0 \<subseteq> dirs s'" by auto
  moreover from reached e1(4) d2 d3
  have "dirs s' \<subseteq> insert dir (set (parentDirs dir) \<union> dirs s0)" by auto
  ultimately show ?thesis by blast
qed

text \<open>Without an output directory the hook is rejected before it touches the file system.\<close>

lemma generate_without_directory:
  "generate join outputEntries None s0 = (Rejected ERR_INVALID_ARG_TYPE, s0)"
  by (simp add: generate_def)

theorem generate_frame_witness:
  "''q-manifest.json'' \<noteq> ''dist/server/package.json'' \<and>
   ''q-manifest.json'' \<noteq> ''dist/server/function.json'' \<and>
   files (snd (generate (\<lambda>a b. a @ ''/'' @ b) [''entry.azure-swa.mjs''] (Some ''dist/server'')
                 \<lparr>files = [''q-manifest.json'' \<mapsto> ''{}''], dirs = {''src''},
                   refused = (\<lambda>p. None)\<rparr>))
     ''q-manifest.json'' = Some ''{}'' \<and>
   {''src''} \<subseteq> dirs (snd (generate (\<lambda>a b. a @ ''/'' @ b) [''entry.azure-swa.mjs'']
                 (Some ''dist/server'')
                 \<lparr>files = [''q-manifest.json'' \<mapsto> ''{}''], dirs = {''src''},
                   refused = (\<lambda>p. None)\<rparr>)) \<and>
   dirs (snd (generate (\<lambda>a b. a @ ''/'' @ b) [''entry.azure-swa.mjs''] (Some ''dist/server'')
                 \<lparr>files = [''q-manifest.json'' \<mapsto> ''{}''], dirs = {''src''},
                   refused = (\<lambda>p. None)\<rparr>))
     \<subseteq> {''dist/server'', ''dist'', ''src''}"
proof -
  let ?s0 = "\<lparr>files = [''q-manifest.json'' \<mapsto> ''{}''], dirs = {''src''},
               refused = (\<lambda>p. None)\<rparr>"
  let ?g = "generate (\<lambda>a b. a @ ''/'' @ b) [''entry.azure-swa.mjs''] (Some ''dist/server'') ?s0"
  have "?g = (fst ?g, snd ?g)" by simp
  from generate_frame [OF this] have
    "(\<forall>p. p \<noteq> ''dist/server/package.json'' \<and> p \<noteq> ''dist/server/function.json''
          \<longrightarrow> files (snd ?g) p = files ?s0 p)
     \<and> dirs ?s0 \<subseteq> dirs (snd ?g)
     \<and> dirs (snd ?g) \<subseteq> insert ''dist/server'' (set (parentDirs ''dist/server'') \<union> dirs ?s0)"
    by simp
  then have "files (snd ?g) ''q-manifest.json'' = files ?s0 ''q-manifest.json''"
    and "dirs ?s0 \<subseteq> dirs (snd ?g)"
    and "dirs (snd ?g) \<subseteq> insert ''dist/server'' (set (parentDirs ''dist/server'') \<union> dirs ?s0)"
    by simp_all
  then show ?thesis by (auto simp: parentDirs_def)
qed

subsection \<open>No matching entry\<close>

lemma expectedFuncJson_None_no_scriptFile:
  "\<not> sublist ''scriptFile'' (expectedFuncJson None)"
  unfolding expectedFuncJson_def by code_simp

text \<open>
  Claim C8. When no element of \<open>outputEntries\<close> starts with \<^verbatim>\<open>entry.azure-swa\<close> the hook
  reports nothing about it: wherever the file system accepts the three operations, the
  hook is fulfilled, both packaging files are written, and the text of
  \<^verbatim>\<open>function.json\<close>, the serialization of the object whose \<^verbatim>\<open>scriptFile\<close> is
  \<^verbatim>\<open>undefined\<close>, nowhere contains \<^verbatim>\<open>scriptFile\<close>. The file system accepts the
  operations when the output directory is a valid path that the environment does not
  refuse and neither it nor an ancestor is a regular file, and when each target is a
  valid path that the environment does not refuse, is not a directory, and has all its
  ancestors among the directories that exist once the output directory is made, none
  of them a regular file. An empty output directory, for one, is rejected by
  \<^verbatim>\<open>mkdir\<close> with \<^verbatim>\<open>ENOENT\<close>, and a target outside every existing directory by
  \<^verbatim>\<open>writeFile\<close>.
\<close>

theorem generate_without_entry:
  assumes "\<forall>e\<in>set outputEntries. \<not> prefix ''entry.azure-swa'' e"
    and "dir \<noteq> []" and "CHR 0x00 \<notin> set dir" and "refused s0 dir = None"
    and "files s0 dir = None" and "\<forall>a\<in>set (parentDirs dir). files s0 a = None"
    and "\<forall>t\<in>{join dir ''package.json'', join dir ''function.json''}.
           t \<noteq> [] \<and> CHR 0x00 \<notin> set t \<and> refused s0 t = None
           \<and> t \<notin> insert dir (set (parentDirs dir) \<union> dirs s0)
           \<and> set (parentDirs t) \<subseteq> insert dir (set (parentDirs dir) \<union> dirs s0)
           \<and> (\<forall>a\<in>set (parentDirs t). files s0 a = None)"
    and "join dir ''package.json'' \<notin> set (parentDirs (join dir ''function.json''))"
    and "join dir ''package.json'' \<noteq> join dir ''function.json''"
  shows \<open>\<exists>s'. generate join outputEntries (Some dir) s0 = (Fulfilled, s') \<and>
           files s' (join dir ''package.json'') = Some ''{"type":"module"}'' \<and>
           files s' (join dir ''function.json'') = Some (expectedFuncJson None) \<and>
           JSON_stringify (funcJsonValue None) 2 = Some (expectedFuncJson None) \<and>
           \<not> sublist ''scriptFile'' (expectedFuncJson None)\<close>
proof -
  let ?pkg = "join dir ''package.json''" and ?fn = "join dir ''function.json''"
  let ?made = "insert dir (set (parentDirs dir) \<union> dirs s0)"
  let ?s1 = "s0\<lparr>dirs := ?made\<rparr>"
  let ?s2 = \<open>?s1\<lparr>files := (files s0)(?pkg \<mapsto> ''{"type":"module"}'')\<rparr>\<close>
  let ?s3 = \<open>?s2\<lparr>files := (files s0)(?pkg \<mapsto> ''{"type":"module"}'',
                                       ?fn \<mapsto> expectedFuncJson None)\<rparr>\<close>
  from assms(1) have none: "find (\<lambda>entryName. prefix ''entry.azure-swa'' entryName) outputEntries = None"
    by (simp add: find_None_iff)
  have m: "mkdir dir s0 = (Fulfilled, ?s1)"
    using assms(2-6) by (simp add: mkdir_Fulfilled pathError_def)
  from assms(7) have pkg: "?pkg \<noteq> []" "CHR 0x00 \<notin> set ?pkg" "refused s0 ?pkg = None"
    "?pkg \<notin> ?made" "set (parentDirs ?pkg) \<subseteq> ?made" "\<forall>a\<in>set (parentDirs ?pkg). files s0 a = None"
    by simp_all
  from assms(7) have fn: "?fn \<noteq> []" "CHR 0x00 \<notin> set ?fn" "refused s0 ?fn = None"
    "?fn \<notin> ?made" "set (parentDirs ?fn) \<subseteq> ?made" "\<forall>a\<in>set (parentDirs ?fn). files s0 a = None"
    by simp_all
  have w1: \<open>writeFile ?pkg (Some ''{"type":"module"}'') ?s1 = (Fulfilled, ?s2)\<close>
    using pkg by (auto simp: writeFile_Fulfilled pathError_def resolveParents_None)
  have w2: "writeFile ?fn (Some (expectedFuncJson None)) ?s2 = (Fulfilled, ?s3)"
    using fn assms(8) by (auto simp: writeFile_Fulfilled pathError_def resolveParents_None)
  have "generate join outputEntries (Some dir) s0 = (Fulfilled, ?s3)"
    unfolding generate_steps none m using w1 w2 by simp
  moreover have \<open>files ?s3 ?pkg = Some ''{"type":"module"}''\<close>
    using assms(9) by simp
  moreover have "files ?s3 ?fn = Some (expectedFuncJson None)" by simp
  ultimately show ?thesis
    using expectedFuncJson_None_no_scriptFile stringify_funcJson [of None] by blast
qed

theorem generate_without_entry_witness:
  \<open>\<not> prefix ''entry.azure-swa'' ''q-abc.js'' \<and>
   \<not> prefix ''entry.azure-swa'' ''entry.ssr.mjs'' \<and>
   parentDirs ''dist/server'' = [''dist''] \<and>
   parentDirs ''dist/server/package.json'' = [''dist'', ''dist/server''] \<and>
   parentDirs ''dist/server/function.json'' = [''dist'', ''dist/server''] \<and>
   (\<exists>s'. generate (\<lambda>a b. a @ ''/'' @ b) [''q-abc.js'', ''entry.ssr.mjs''] (Some ''dist/server'')
            \<lparr>files = Map.empty, dirs = {}, refused = (\<lambda>p. None)\<rparr> = (Fulfilled, s') \<and>
      files s' ''dist/server/package.json'' = Some ''{"type":"module"}'' \<and>
      files s' ''dist/server/function.json'' = Some (expectedFuncJson None) \<and>
      JSON_stringify (funcJsonValue None) 2 = Some (expectedFuncJson None) \<and>
      \<not> sublist ''scriptFile'' (expectedFuncJson None))\<close>
proof -
  have pd: "parentDirs ''dist/server'' = [''dist'']"
    "parentDirs ''dist/server/package.json'' = [''dist'', ''dist/server'']"
    "parentDirs ''dist/server/function.json'' = [''dist'', ''dist/server'']"
    by (simp_all add: parentDirs_def)
  show ?thesis
    using generate_without_entry [of "[''q-abc.js'', ''entry.ssr.mjs'']" "''dist/server''"
        "\<lparr>files = Map.empty, dirs = {}, refused = (\<lambda>p. None)\<rparr>" "\<lambda>a b. a @ ''/'' @ b"]
    by (simp add: pd)
qed

text \<open>
  The conditions are the ones the hook needs: a fulfilled hook has met each of them,
  whatever the entries are.
\<close>

lemma generate_fulfilled_only_if:
  assumes "generate join outputEntries (Some dir) s0 = (Fulfilled, s')"
  shows "dir \<noteq> [] \<and> CHR 0x00 \<notin> set dir \<and> refused s0 dir = None
         \<and> files s0 dir = None \<and> (\<forall>a\<in>set (parentDirs dir). files s0 a = None)
         \<and> (\<forall>t\<in>{join dir ''package.json'', join dir ''function.json''}.
               t \<noteq> [] \<and> CHR 0x00 \<notin> set t \<and> refused s0 t = None
               \<and> t \<notin> insert dir (set (parentDirs dir) \<union> dirs s0)
               \<and> set (parentDirs t) \<subseteq> insert dir (set (parentDirs dir) \<union> dirs s0)
               \<and> (\<forall>a\<in>set (parentDirs t). files s0 a = None))
         \<and> join dir ''package.json'' \<notin> set (parentDirs (join dir ''function.json''))"
proof -
  from assms obtain s1 s2 where
    m: "mkdir dir s0 = (Fulfilled, s1)"
    and w1: \<open>writeFile (join dir ''package.json'') (Some ''{"type":"module"}'') s1 = (Fulfilled, s2)\<close>
    and w2: "writeFile (join dir ''function.json'')
       (Some (expectedFuncJson
          (find (\<lambda>entryName. prefix ''entry.azure-swa'' entryName) outputEntries))) s2
       = (Fulfilled, s')"
    unfolding generate_steps by (auto split: prod.splits outcome.splits)
  from m have s1: "pathError s0 dir = None" "files s0 dir = None"
    "\<forall>a\<in>set (parentDirs dir). files s0 a = None"
    "s1 = s0\<lparr>dirs := insert dir (set (parentDirs dir) \<union> dirs s0)\<rparr>"
    by (simp_all add: mkdir_Fulfilled)
  from w1 have s2: "pathError s1 (join dir ''package.json'') = None"
    "resolveParents s1 (parentDirs (join dir ''package.json'')) = None"
    "join dir ''package.json'' \<notin> dirs s1"
    \<open>s2 = s1\<lparr>files := (files s1)(join dir ''package.json'' \<mapsto> ''{"type":"module"}'')\<rparr>\<close>
    by (simp_all add: writeFile_Fulfilled)
  from w2 have s3: "pathError s2 (join dir ''function.json'') = None"
    "resolveParents s2 (parentDirs (join dir ''function.json'')) = None"
    "join dir ''function.json'' \<notin> dirs s2"
    by (simp_all add: writeFile_Fulfilled)
  from s1(1) have "dir \<noteq> [] \<and> CHR 0x00 \<notin> set dir \<and> refused s0 dir = None"
    by (simp add: pathError_None)
  moreover from s2(1-3) s1(4) have
    "join dir ''package.json'' \<noteq> [] \<and> CHR 0x00 \<notin> set (join dir ''package.json'')
       \<and> refused s0 (join dir ''package.json'') = None
       \<and> join dir ''package.json'' \<notin> insert dir (set (parentDirs dir) \<union> dirs s0)
       \<and> set (parentDirs (join dir ''package.json''))
            \<subseteq> insert dir (set (parentDirs dir) \<union> dirs s0)
       \<and> (\<forall>a\<in>set (parentDirs (join dir ''package.json'')). files s0 a = None)"
    by (auto simp: pathError_None resolveParents_None)
  moreover from s3 s2(4) s1(4) have
    "join dir ''function.json'' \<noteq> [] \<and> CHR 0x00 \<notin> set (join dir ''function.json'')
       \<and> refused s0 (join dir ''function.json'') = None
       \<and> join dir ''function.json'' \<notin> insert dir (set (parentDirs dir) \<union> dirs s0)
       \<and> set (parentDirs (join dir ''function.json''))
            \<subseteq> insert dir (set (parentDirs dir) \<union> dirs s0)
       \<and> (\<forall>a\<in>set (parentDirs (join dir ''function.json'')). files s0 a = None)
       \<and> join dir ''package.json'' \<notin> set (parentDirs (join dir ''function.json''))"
    by (auto simp: pathError_None resolveParents_None split: if_splits)
  ultimately show ?thesis using s1(2,3) by simp
qed

subsection \<open>Several matching entries\<close>

text \<open>
  Claim C9. The entry referenced as \<^verbatim>\<open>scriptFile\<close> is the earliest element of
  \<open>outputEntries\<close> that starts with \<^verbatim>\<open>entry.azure-swa\<close>, whatever follows it.
\<close>

theorem generate_first_match:
  assumes "i < length outputEntries"
    and "prefix ''entry.azure-swa'' (outputEntries ! i)"
    and "\<forall>j<i. \<not> prefix ''entry.azure-swa'' (outputEntries ! j)"
    and "generate join outputEntries (Some dir) s0 = (Fulfilled, s')"
  shows "files s' (join dir ''function.json'') = Some (expectedFuncJson (Some (outputEntries ! i)))"
proof -
  have "find (\<lambda>entryName. prefix ''entry.azure-swa'' entryName) outputEntries
          = Some (outputEntries ! i)"
    using assms(1-3) by (rule find_first_index)
  with generate_Fulfilled [OF assms(4)] show ?thesis by simp
qed

theorem generate_first_match_witness:
  "(1::nat) < length [''q-abc.js'', ''entry.azure-swa.mjs'', ''entry.azure-swa.alt.mjs''] \<and>
   prefix ''entry.azure-swa'' ([''q-abc.js'', ''entry.azure-swa.mjs'', ''entry.azure-swa.alt.mjs''] ! 1) \<and>
   prefix ''entry.azure-swa'' ([''q-abc.js'', ''entry.azure-swa.mjs'', ''entry.azure-swa.alt.mjs''] ! 2) \<and>
   files (snd (generate (\<lambda>a b. a @ ''/'' @ b)
                 [''q-abc.js'', ''entry.azure-swa.mjs'', ''entry.azure-swa.alt.mjs'']
                 (Some ''dist/server'') \<lparr>files = Map.empty, dirs = {}, refused = (\<lambda>p. None)\<rparr>))
     ''dist/server/function.json''
     = Some (expectedFuncJson (Some ''entry.azure-swa.mjs''))"
proof -
  let ?oe = "[''q-abc.js'', ''entry.azure-swa.mjs'', ''entry.azure-swa.alt.mjs'']"
  let ?g = "generate (\<lambda>a b. a @ ''/'' @ b) ?oe (Some ''dist/server'')
              \<lparr>files = Map.empty, dirs = {}, refused = (\<lambda>p. None)\<rparr>"
  have h1: "(1::nat) < length ?oe" by simp
  have h2: "prefix ''entry.azure-swa'' (?oe ! 1)" by simp
  have h3: "\<forall>j<(1::nat). \<not> prefix ''entry.azure-swa'' (?oe ! j)" by simp
  have h4: "?g = (Fulfilled, snd ?g)" unfolding generate_example by simp
  have h5: "prefix ''entry.azure-swa'' (?oe ! 2)" by simp
  from generate_first_match [OF h1 h2 h3 h4] h1 h2 h5 show ?thesis by simp
qed

subsection \<open>The deprecated alias\<close>

text \<open>
  Claim C10. \<^verbatim>\<open>azureSwaAdaptor\<close> is \<^verbatim>\<open>azureSwaAdapter\<close>: both give the same result on
  every argument, in every environment.
\<close>

theorem azureSwaAdaptor_same:
  "azureSwaAdaptor viteAdapter join env_URL opts = azureSwaAdapter viteAdapter join env_URL opts"
  by (simp add: azureSwaAdaptor_def)

section \<open>Properties of the routing core\<close>

subsection \<open>Matching\<close>

lemma matchPattern_static:
  "list_all isLiteral p \<Longrightarrow> matchPattern p path = (if path = literalPath p then Some [] else None)"
proof (induction p path rule: matchPattern.induct)
qed auto

lemma static_pattern_literals:
  "list_all isLiteral p \<Longrightarrow> map Literal (literalPath p) = p"
  by (induction p rule: literalPath.induct) simp_all

lemma literalPath_inj:
  assumes "list_all isLiteral p" and "list_all isLiteral q"
    and "literalPath p = literalPath q"
  shows "p = q"
proof -
  have "p = map Literal (literalPath p)"
    using assms(1) by (simp add: static_pattern_literals)
  also have "\<dots> = map Literal (literalPath q)"
    using assms(3) by simp
  also have "\<dots> = q"
    using assms(2) by (simp add: static_pattern_literals)
  finally show ?thesis .
qed

lemma matchRoute_skip:
  assumes "\<forall>x\<in>set xs. matchPattern (pattern x) path = None"
  shows "matchRoute (xs @ ys) path = matchRoute ys path"
  using assms by (induction xs) auto

lemma matchRoute_first:
  "matchRoute m path = Inr (e, ps) \<Longrightarrow>
     \<exists>i<length m. m ! i = e
        \<and> (\<exists>caps. matchPattern (pattern e) path = Some caps \<and> ps = zip (paramNames e) caps)
        \<and> (\<forall>j<i. matchPattern (pattern (m ! j)) path = None)"
proof (induction m)
  case Nil
  then show ?case by simp
next
  case (Cons x xs)
  show ?case
  proof (cases "matchPattern (pattern x) path")
    case (Some caps)
    with Cons.prems have "x = e" "ps = zip (paramNames e) caps" by auto
    with Some show ?thesis by (intro exI [of _ 0]) auto
  next
    case None
    with Cons.prems have "matchRoute xs path = Inr (e, ps)" by simp
    from Cons.IH [OF this] obtain i where i: "i < length xs" "xs ! i = e"
      "\<exists>caps. matchPattern (pattern e) path = Some caps \<and> ps = zip (paramNames e) caps"
      "\<forall>j<i. matchPattern (pattern (xs ! j)) path = None"
      by blast
    have "\<forall>j<Suc i. matchPattern (pattern ((x # xs) ! j)) path = None"
      using None i(4) by (auto simp: less_Suc_eq_0_disj)
    with i(1-3) show ?thesis by (intro exI [of _ "Suc i"]) auto
  qed
qed

subsection \<open>Ranking\<close>

lemma distinct_map_insort_key:
  "distinct (map g (insort_key f x xs)) = distinct (map g (x # xs))"
  by (induction xs) (auto simp: set_insort_key)

lemma distinct_map_sort_key:
  "distinct (map g (sort_key f xs)) = distinct (map g xs)"
  by (induction xs) (simp_all add: distinct_map_insort_key)

lemma rankEntries_Inr:
  assumes "rankEntries es = Inr m"
  shows "sorted (map (\<lambda>e. rank (pattern e)) m)" and "distinct (map pattern m)"
  using assms by (auto simp: rankEntries_def distinct_map_sort_key split: if_splits)

lemma compileManifest_Inr:
  assumes "compileManifest root = Inr m"
  shows "sorted (map (\<lambda>e. rank (pattern e)) m)" and "distinct (map pattern m)"
proof -
  from assms obtain es where "rankEntries es = Inr m"
    by (auto simp: compileManifest_def split: sum.splits)
  then show "sorted (map (\<lambda>e. rank (pattern e)) m)" and "distinct (map pattern m)"
    by (rule rankEntries_Inr)+
qed

lemma rank_zero: "rank p = 0 \<longleftrightarrow> list_all isLiteral p"
  by (simp add: rank_def)

lemma static_entry_first:
  assumes srt: "sorted (map (\<lambda>e. rank (pattern e)) m)"
    and dst: "distinct (map pattern m)"
    and mem: "e \<in> set m"
    and lit: "list_all isLiteral (pattern e)"
  shows "matchRoute m (literalPath (pattern e)) = Inr (e, [])"
proof -
  from mem obtain xs ys where m: "m = xs @ e # ys"
    by (auto simp: in_set_conv_decomp)
  have "matchPattern (pattern x) (literalPath (pattern e)) = None" if x: "x \<in> set xs" for x
  proof -
    from srt m x have "rank (pattern x) \<le> rank (pattern e)"
      by (auto simp: sorted_append)
    with lit have lx: "list_all isLiteral (pattern x)"
      by (simp add: rank_zero [symmetric])
    from dst have "pattern e \<notin> pattern ` set xs"
      unfolding m by simp
    with x have ne: "pattern x \<noteq> pattern e"
      by (metis imageI)
    have "literalPath (pattern e) \<noteq> literalPath (pattern x)"
    proof
      assume "literalPath (pattern e) = literalPath (pattern x)"
      from literalPath_inj [OF lit lx this] ne show False by simp
    qed
    with lx show ?thesis by (simp add: matchPattern_static)
  qed
  then have "matchRoute m (literalPath (pattern e)) = matchRoute (e # ys) (literalPath (pattern e))"
    unfolding m by (intro matchRoute_skip) blast
  also have "\<dots> = Inr (e, [])"
    using lit by (simp add: matchPattern_static)
  finally show ?thesis .
qed

subsection \<open>Static routes are not shadowed\<close>

text \<open>
  Claim C2. In a compiled manifest, the literal path of a static-only entry is matched
  by that entry, with no parameters, and not by a dynamic or rest entry that could also
  consume the path; and whatever entry the matcher returns for a path is the first one,
  in rank order, whose pattern matches the whole path.
\<close>

theorem static_route_not_shadowed:
  assumes "compileManifest root = Inr m"
    and "e \<in> set m"
    and "list_all isLiteral (pattern e)"
  shows "matchRoute m (literalPath (pattern e)) = Inr (e, []) \<and>
         (\<forall>path e' ps. matchRoute m path = Inr (e', ps) \<longrightarrow>
            (\<exists>i<length m. m ! i = e'
               \<and> (\<exists>caps. matchPattern (pattern e') path = Some caps
                      \<and> ps = zip (paramNames e') caps)
               \<and> (\<forall>j<i. matchPattern (pattern (m ! j)) path = None)))"
proof
  show "matchRoute m (literalPath (pattern e)) = Inr (e, [])"
    using compileManifest_Inr [OF assms(1)] assms(2,3) by (rule static_entry_first)
  show "\<forall>path e' ps. matchRoute m path = Inr (e', ps) \<longrightarrow>
            (\<exists>i<length m. m ! i = e'
               \<and> (\<exists>caps. matchPattern (pattern e') path = Some caps
                      \<and> ps = zip (paramNames e') caps)
               \<and> (\<forall>j<i. matchPattern (pattern (m ! j)) path = None))"
    by (intro allI impI) (rule matchRoute_first)
qed

text \<open>The manifest of the product tree: the static route is ranked before its siblings.\<close>

lemma productManifest:
  "compileManifest productRoutes =
     Inr [\<lparr>pattern = [Literal ''product'', Literal ''new''], paramNames = [],
            handlerRef = ''src/routes/product/new/index.tsx'', layoutChain = [rootLayout]\<rparr>,
          \<lparr>pattern = [Literal ''product'', Param], paramNames = [''skuId''],
            handlerRef = ''src/routes/product/[skuId]/index.tsx'', layoutChain = [rootLayout]\<rparr>,
          \<lparr>pattern = [Literal ''product'', Rest], paramNames = [''rest''],
            handlerRef = ''src/routes/product/[...rest]/index.tsx'', layoutChain = [rootLayout]\<rparr>]"
  by (simp add: compileManifest_def productRoutes_def nodeMatchers_def nodeParamNames_def
      resolveLayoutChain_def defaultLayout_def rankEntries_def rank_def)

theorem static_route_not_shadowed_witness:
  "\<exists>m e. compileManifest productRoutes = Inr m \<and> e \<in> set m
      \<and> pattern e = [Literal ''product'', Literal ''new'']
      \<and> matchPattern [Literal ''product'', Param] [''product'', ''new''] = Some [One ''new'']
      \<and> matchRoute m [''product'', ''new''] = Inr (e, [])"
proof -
  let ?e = "\<lparr>pattern = [Literal ''product'', Literal ''new''], paramNames = [],
            handlerRef = ''src/routes/product/new/index.tsx'', layoutChain = [rootLayout]\<rparr>"
  let ?m = "[?e,
          \<lparr>pattern = [Literal ''product'', Param], paramNames = [''skuId''],
            handlerRef = ''src/routes/product/[skuId]/index.tsx'', layoutChain = [rootLayout]\<rparr>,
          \<lparr>pattern = [Literal ''product'', Rest], paramNames = [''rest''],
            handlerRef = ''src/routes/product/[...rest]/index.tsx'', layoutChain = [rootLayout]\<rparr>]"
  have c: "compileManifest productRoutes = Inr ?m" by (rule productManifest)
  have mem: "?e \<in> set ?m" by simp
  have lit: "list_all isLiteral (pattern ?e)" by simp
  from static_route_not_shadowed [OF c mem lit]
  have "matchRoute ?m (literalPath (pattern ?e)) = Inr (?e, [])" by (rule conjunct1)
  then have "matchRoute ?m [''product'', ''new''] = Inr (?e, [])" by simp
  with c mem show ?thesis
    by (intro exI [of _ ?m] exI [of _ ?e]) simp
qed

subsection \<open>Rest parameters\<close>

lemma matchPattern_rest:
  "Rest \<notin> set pre \<Longrightarrow> matchPattern (pre @ [Rest]) path = Some caps \<Longrightarrow>
     caps \<noteq> [] \<and> last caps = Many (drop (length pre) path)
       \<and> matchPattern pre (take (length pre) path) = Some (butlast caps)"
proof (induction pre arbitrary: path caps)
  case Nil
  then show ?case by auto
next
  case (Cons m ms)
  show ?case
  proof (cases path)
    case Nil
    with Cons.prems show ?thesis by (cases m) auto
  next
    case (Cons s segs)
    show ?thesis
    proof (cases m)
      case (Literal t)
      with Cons.prems Cons have "s = t" "matchPattern (ms @ [Rest]) segs = Some caps"
        by (auto split: if_splits)
      moreover from Cons.prems have "Rest \<notin> set ms" by simp
      ultimately show ?thesis
        using Cons.IH [of segs caps] Cons Literal by simp
    next
      case Param
      with Cons.prems Cons obtain caps' where c: "caps = One s # caps'"
        "matchPattern (ms @ [Rest]) segs = Some caps'"
        by auto
      moreover from Cons.prems have "Rest \<notin> set ms" by simp
      ultimately show ?thesis
        using Cons.IH [of segs caps'] Cons Param by (auto simp: butlast_def)
    next
      case Rest
      with Cons.prems show ?thesis by simp
    qed
  qed
qed

text \<open>
  Claim C5. When a path matches a pattern that ends in a rest parameter, the last capture
  is the sequence of the segments that the preceding matchers left: the preceding
  matchers match the first segments, these followed by the captured sequence are the
  path, and joining the captured sequence with the separator gives the joined trailing
  part of the path. The captured sequence may be empty. A rest parameter is the last
  matcher of its pattern (section 4.1), so the preceding matchers hold none.
\<close>

theorem rest_capture_roundtrip:
  assumes "Rest \<notin> set pre"
    and "matchPattern (pre @ [Rest]) path = Some caps"
  shows "\<exists>rest. caps \<noteq> [] \<and> last caps = Many rest
           \<and> matchPattern pre (take (length pre) path) = Some (butlast caps)
           \<and> take (length pre) path @ rest = path
           \<and> joinWith ''/'' rest = joinWith ''/'' (drop (length pre) path)"
  using matchPattern_rest [OF assms] by simp

theorem rest_capture_roundtrip_witness:
  "matchPattern ([Literal ''docs'', Param] @ [Rest]) [''docs'', ''v1'', ''guide'', ''intro'']
     = Some [One ''v1'', Many [''guide'', ''intro'']] \<and>
   joinWith ''/'' [''guide'', ''intro''] = ''guide/intro'' \<and>
   matchPattern ([Literal ''docs'', Param] @ [Rest]) [''docs'', ''v1''] = Some [One ''v1'', Many []] \<and>
   (\<exists>rest. last [One ''v1'', Many [''guide'', ''intro'']] = Many rest
      \<and> take 2 [''docs'', ''v1'', ''guide'', ''intro''] @ rest = [''docs'', ''v1'', ''guide'', ''intro'']
      \<and> joinWith ''/'' rest = joinWith ''/'' (drop 2 [''docs'', ''v1'', ''guide'', ''intro'']))"
proof -
  have h1: "Rest \<notin> set [Literal ''docs'', Param]" by simp
  have h2: "matchPattern ([Literal ''docs'', Param] @ [Rest]) [''docs'', ''v1'', ''guide'', ''intro'']
     = Some [One ''v1'', Many [''guide'', ''intro'']]" by simp
  have h3: "matchPattern ([Literal ''docs'', Param] @ [Rest]) [''docs'', ''v1''] = Some [One ''v1'', Many []]"
    by simp
  from rest_capture_roundtrip [OF h1 h2] h2 h3 show ?thesis by simp
qed

subsection \<open>Redirects and non-200 results\<close>

text \<open>
  Claim C3. When the handler sets a redirect target, the pipeline answers with a redirect
  to that target and composes nothing: the response carries no layout context, no leaf
  context and no payload.
\<close>

theorem redirect_skips_composition:
  assumes "redirect (fst (h params \<lparr>status = None, responseHeaders = [], redirect = None\<rparr>))
             = Some target"
  shows "\<exists>code hs. handleRequest entry h params = RedirectResponse target code hs
           \<and> renderedContext (handleRequest entry h params) = None"
  using assms
  by (auto simp: handleRequest_def finalize_def invokeHandler_def split: prod.splits sum.splits)

theorem redirect_skips_composition_witness:
  "redirect (fst (redirectHandler [(''skuId'', One ''999'')]
       \<lparr>status = None, responseHeaders = [], redirect = None\<rparr>)) = Some ''/product/new'' \<and>
   handleRequest
       \<lparr>pattern = [Literal ''product'', Param], paramNames = [''skuId''],
         handlerRef = ''src/routes/product/[skuId]/index.tsx'', layoutChain = [rootLayout]\<rparr>
       redirectHandler [(''skuId'', One ''999'')]
     = RedirectResponse ''/product/new'' 200 [] \<and>
   renderedContext (handleRequest
       \<lparr>pattern = [Literal ''product'', Param], paramNames = [''skuId''],
         handlerRef = ''src/routes/product/[skuId]/index.tsx'', layoutChain = [rootLayout]\<rparr>
       redirectHandler [(''skuId'', One ''999'')]) = None"
proof -
  have h: "redirect (fst (redirectHandler [(''skuId'', One ''999'')]
       \<lparr>status = None, responseHeaders = [], redirect = None\<rparr>)) = Some ''/product/new''"
    by (simp add: redirectHandler_def)
  from redirect_skips_composition [where h = redirectHandler
      and params = "[(''skuId'', One ''999'')]" and target = "''/product/new''"
      and entry = "\<lparr>pattern = [Literal ''product'', Param], paramNames = [''skuId''],
         handlerRef = ''src/routes/product/[skuId]/index.tsx'', layoutChain = [rootLayout]\<rparr>",
      OF h] h
  show ?thesis
    by (simp add: handleRequest_def finalize_def invokeHandler_def redirectHandler_def)
qed

text \<open>A composition holds the whole chain and hands the result to the leaf.\<close>

lemma contextLayouts_compose: "contextLayouts (compose chain leaf result) = chain"
  by (induction chain) simp_all

lemma contextLeaf_compose: "contextLeaf (compose chain leaf result) = (leaf, result)"
  by (induction chain) simp_all

text \<open>
  Claim C4. When the handler returns a payload, be it the absent value, and sets no
  redirect target, the pipeline renders: the composition holds every layout of the
  entry's chain down to the leaf view, and the leaf is given the payload and the status
  code the handler set, whatever it is (200 when it set none).
\<close>

theorem status_never_suppresses_rendering:
  assumes "h params \<lparr>status = None, responseHeaders = [], redirect = None\<rparr> = (resp, Inr payload)"
    and "redirect resp = None"
  shows "\<exists>ctx. handleRequest entry h params = Rendered ctx
           \<and> contextLayouts ctx = layoutChain entry
           \<and> fst (contextLeaf ctx) = handlerRef entry
           \<and> data (snd (contextLeaf ctx)) = payload
           \<and> statusCode (snd (contextLeaf ctx))
               = (case status resp of None \<Rightarrow> 200 | Some code \<Rightarrow> code)"
  using assms
  by (simp add: handleRequest_def finalize_def invokeHandler_def
      contextLayouts_compose contextLeaf_compose)

theorem status_never_suppresses_rendering_witness:
  "notFoundHandler [(''skuId'', One ''999'')] \<lparr>status = None, responseHeaders = [], redirect = None\<rparr>
     = (\<lparr>status = Some 404, responseHeaders = [], redirect = None\<rparr>, Inr Absent) \<and>
   handleRequest
       \<lparr>pattern = [Literal ''product'', Param], paramNames = [''skuId''],
         handlerRef = ''src/routes/product/[skuId]/index.tsx'', layoutChain = [rootLayout]\<rparr>
       notFoundHandler [(''skuId'', One ''999'')]
     = Rendered (LayoutContext rootLayout
         (LeafContext ''src/routes/product/[skuId]/index.tsx''
            \<lparr>statusCode = 404, redirectTarget = None, headers = [],
              data = Absent, errorKind = None\<rparr>))"
proof -
  let ?entry = "\<lparr>pattern = [Literal ''product'', Param], paramNames = [''skuId''],
         handlerRef = ''src/routes/product/[skuId]/index.tsx'', layoutChain = [rootLayout]\<rparr>"
  let ?resp = "\<lparr>status = Some 404, responseHeaders = [], redirect = None\<rparr>"
  have h1: "notFoundHandler [(''skuId'', One ''999'')]
              \<lparr>status = None, responseHeaders = [], redirect = None\<rparr>
            = (?resp, Inr (Absent :: string payload))"
    by (simp add: notFoundHandler_def)
  have h2: "redirect ?resp = None" by simp
  from status_never_suppresses_rendering [where h = notFoundHandler
      and params = "[(''skuId'', One ''999'')]" and resp = ?resp
      and payload = "Absent :: string payload" and entry = ?entry,
      OF h1 h2]
  obtain ctx where ctx: "handleRequest ?entry notFoundHandler [(''skuId'', One ''999'')] = Rendered ctx"
    "contextLayouts ctx = [rootLayout]"
    "fst (contextLeaf ctx) = ''src/routes/product/[skuId]/index.tsx''"
    "data (snd (contextLeaf ctx)) = Absent"
    "statusCode (snd (contextLeaf ctx)) = 404"
    by auto
  have "handleRequest ?entry notFoundHandler [(''skuId'', One ''999'')]
     = Rendered (LayoutContext rootLayout
         (LeafContext ''src/routes/product/[skuId]/index.tsx''
            \<lparr>statusCode = 404, redirectTarget = None, headers = [],
              data = Absent, errorKind = None\<rparr>))"
    by (simp add: handleRequest_def finalize_def invokeHandler_def notFoundHandler_def)
  with h1 ctx show ?thesis by simp
qed

subsection \<open>Layout chains\<close>







end
